theory Spec2Isabelle
  imports Main "HOL-Library.Word" "HOL-Library.Multiset"
begin

section \<open>Go library functions used by alterclause.go\<close>

text \<open>
  Go strings are byte sequences; they are modelled as \<open>string\<close> (a list of 8-bit
  characters). The functions of this section belong to Go's standard library
  (packages strings, strconv, regexp, fmt), which alterclause.go imports. They are
  written out from their documented behaviour so that the code of alterclause.go can be
  evaluated.
\<close>

subsection \<open>Package strings\<close>

definition toLowerByte :: "char \<Rightarrow> char" where
  "toLowerByte c =
     (let n = (of_char c :: nat) in if 65 \<le> n \<and> n \<le> 90 then char_of (n + 32) else c)"

text \<open>
  \<open>strings.ToLower\<close>. On a string of ASCII bytes Go lowers the bytes \<open>A\<close> to \<open>Z\<close> and
  keeps every other byte, which is what this definition does. On a string with bytes above
  127 Go maps whole runes through its Unicode tables; here such bytes are kept as they
  are. The general theorems below state their hypotheses on the lowered strings and do
  not depend on how a byte is lowered.
\<close>

definition ToLower :: "string \<Rightarrow> string" where
  "ToLower s = map toLowerByte s"

text \<open>\<open>strings.HasPrefix(s, prefix)\<close>:
  \<open>len(s) >= len(prefix) && s[0:len(prefix)] == prefix\<close>.\<close>

definition HasPrefix :: "string \<Rightarrow> string \<Rightarrow> bool" where
  "HasPrefix s p = (length p \<le> length s \<and> take (length p) s = p)"

text \<open>\<open>strings.Contains(s, substr)\<close>: \<open>substr\<close> occurs in \<open>s\<close> at some position.\<close>

fun Contains :: "string \<Rightarrow> string \<Rightarrow> bool" where
  "Contains [] substr = (substr = [])"
| "Contains (c # cs) substr = (HasPrefix (c # cs) substr \<or> Contains cs substr)"

text \<open>\<open>strings.ContainsRune(s, r)\<close> for a rune \<open>r\<close> below 128, which is a single byte.\<close>

definition ContainsRune :: "string \<Rightarrow> char \<Rightarrow> bool" where
  "ContainsRune s r = (r \<in> set s)"



subsection \<open>Package strconv\<close>

definition isDigit :: "char \<Rightarrow> bool" where
  "isDigit c = (let n = (of_char c :: nat) in 48 \<le> n \<and> n \<le> 57)"

text \<open>The number a run of decimal digits denotes, without any bound.\<close>

definition digitsValue :: "string \<Rightarrow> int" where
  "digitsValue s = foldl (\<lambda>n c. 10 * n + (of_char c - 48)) 0 s"

datatype NumError = ErrSyntax | ErrRange

text \<open>The largest value of Go's \<open>int\<close> where it has 64 bits.\<close>

definition maxInt :: int where
  "maxInt = 9223372036854775807"

text \<open>
  \<open>strconv.Atoi\<close> on a platform whose \<open>int\<close> has 64 bits: an optional sign, then
  decimal digits. A string that is not of this form gives 0 and a syntax error; a number
  out of the range of \<open>int\<close> gives the nearest bound of the range and a range error.
\<close>

definition Atoi :: "string \<Rightarrow> int \<times> NumError option" where
  "Atoi s =
     (let neg = (s \<noteq> [] \<and> hd s = CHR ''-'');
          body = (if s \<noteq> [] \<and> (hd s = CHR ''-'' \<or> hd s = CHR ''+'') then tl s else s)
      in if body = [] \<or> \<not> list_all isDigit body then (0, Some ErrSyntax)
         else let un = digitsValue body
              in if \<not> neg \<and> un \<ge> maxInt + 1 then (maxInt, Some ErrRange)
                 else if neg \<and> un > maxInt + 1 then (- (maxInt + 1), Some ErrRange)
                 else (if neg then - un else un, None))"

subsection \<open>Package regexp\<close>

text \<open>
  The four patterns of alterclause.go are anchored at the start of the string and made of
  literals, one negated class and maximal runs of digits, each run followed by a byte that
  is not a digit. Such a pattern has at most one match, so \<open>FindStringSubmatch\<close> is
  written as a left-to-right matcher. The result is \<open>None\<close> for Go's \<open>nil\<close>, and else the
  list of the whole match followed by the capture groups.
\<close>

definition lit :: "string \<Rightarrow> string \<Rightarrow> string option" where
  "lit p s = (if HasPrefix s p then Some (drop (length p) s) else None)"

definition digits1 :: "string \<Rightarrow> (string \<times> string) option" where
  "digits1 s =
     (let d = takeWhile isDigit s in if d = [] then None else Some (d, dropWhile isDigit s))"

text \<open>The tail \<open>\((\d+),(\d+)\)\<close> shared by two patterns; \<open>name\<close> is what was matched before.\<close>

definition parenPair :: "string \<Rightarrow> string \<Rightarrow> string list option" where
  "parenPair name s =
     (case lit ''('' s of None \<Rightarrow> None | Some r1 \<Rightarrow>
     (case digits1 r1 of None \<Rightarrow> None | Some (a, r2) \<Rightarrow>
     (case lit '','' r2 of None \<Rightarrow> None | Some r3 \<Rightarrow>
     (case digits1 r3 of None \<Rightarrow> None | Some (b, r4) \<Rightarrow>
     (case lit '')'' r4 of None \<Rightarrow> None | Some r5 \<Rightarrow>
        Some [name @ ''('' @ a @ '','' @ b @ '')'', a, b])))))"

text \<open>The tail \<open>\((\d+)\)\<close> shared by two patterns.\<close>

definition parenOne :: "string \<Rightarrow> string \<Rightarrow> string list option" where
  "parenOne name s =
     (case lit ''('' s of None \<Rightarrow> None | Some r1 \<Rightarrow>
     (case digits1 r1 of None \<Rightarrow> None | Some (a, r2) \<Rightarrow>
     (case lit '')'' r2 of None \<Rightarrow> None | Some r3 \<Rightarrow>
        Some [name @ ''('' @ a @ '')'', a])))"

text \<open>\<^verbatim>\<open>^decimal\((\d+),(\d+)\)\<close>\<close>

definition reDecimal :: "string \<Rightarrow> string list option" where
  "reDecimal s =
     (case lit ''decimal'' s of None \<Rightarrow> None | Some r \<Rightarrow> parenPair ''decimal'' r)"

text \<open>\<^verbatim>\<open>^var(?:char|binary)\((\d+)\)\<close>\<close>

definition reVar :: "string \<Rightarrow> string list option" where
  "reVar s =
     (case lit ''var'' s of None \<Rightarrow> None | Some r \<Rightarrow>
     (case lit ''char'' r of Some r1 \<Rightarrow> parenOne ''varchar'' r1 | None \<Rightarrow>
     (case lit ''binary'' r of Some r1 \<Rightarrow> parenOne ''varbinary'' r1 | None \<Rightarrow> None)))"

text \<open>\<^verbatim>\<open>^[^(]+\((\d+)\)\<close>: one or more bytes other than the opening parenthesis, which
  therefore end at the first opening parenthesis of the string.\<close>

definition reFsp :: "string \<Rightarrow> string list option" where
  "reFsp s =
     (let name = takeWhile (\<lambda>c. c \<noteq> CHR ''('') s
      in if name = [] then None else parenOne name (dropWhile (\<lambda>c. c \<noteq> CHR ''('') s))"

text \<open>\<^verbatim>\<open>^(?:float|double)\((\d+),(\d+)\)\<close>\<close>

definition reFloat :: "string \<Rightarrow> string list option" where
  "reFloat s =
     (case lit ''float'' s of Some r \<Rightarrow> parenPair ''float'' r | None \<Rightarrow>
     (case lit ''double'' s of Some r \<Rightarrow> parenPair ''double'' r | None \<Rightarrow> None))"

section \<open>ModifyColumn\<close>

text \<open>
  Modelled from the spec: the struct \<open>Column\<close> is declared in another file of the package.
  The record has the fields alterclause.go reads: the name, the type string the database
  reports and the character set.
\<close>

record Column =
  Name :: string
  TypeInDB :: string
  CharSet :: string

text \<open>
  The struct \<open>ModifyColumn\<close>. The table is only handed on to the rendering of the column
  definition, so its type is left open. The Go fields are pointers; the record holds the
  columns themselves, and a missing \<open>PositionAfter\<close> is \<open>None\<close>.
\<close>

record 'tbl ModifyColumn =
  Table :: 'tbl
  OldColumn :: Column
  NewColumn :: Column
  PositionFirst :: bool
  PositionAfter :: "Column option"

text \<open>The closure \<open>bothSamePrefix\<close> of \<open>Unsafe\<close>, with the two captured type strings as
  arguments: the loop returns at the first candidate that is a prefix of both.\<close>

fun bothSamePrefix :: "string \<Rightarrow> string \<Rightarrow> string list \<Rightarrow> bool" where
  "bothSamePrefix oldType newType [] = False"
| "bothSamePrefix oldType newType (candidate # prefix) =
     (if HasPrefix oldType candidate \<and> HasPrefix newType candidate then True
      else bothSamePrefix oldType newType prefix)"

text \<open>The loop of the closure \<open>isSafeSizeChange\<close>: it walks the ranking with the index
  \<open>n\<close> and overwrites a rank at every name that is a prefix, so the last such name counts.\<close>

fun rankLoop :: "string \<Rightarrow> string \<Rightarrow> int \<Rightarrow> string list \<Rightarrow> int \<times> int \<Rightarrow> int \<times> int" where
  "rankLoop oldType newType n [] ranks = ranks"
| "rankLoop oldType newType n (typeName # ranking) (oldRank, newRank) =
     rankLoop oldType newType (n + 1) ranking
       (if HasPrefix oldType typeName then n else oldRank,
        if HasPrefix newType typeName then n else newRank)"

definition isSafeSizeChange :: "string \<Rightarrow> string \<Rightarrow> string list \<Rightarrow> bool" where
  "isSafeSizeChange oldType newType ranking =
     (case rankLoop oldType newType 0 ranking (- 1, - 1) of (oldRank, newRank) \<Rightarrow>
        if oldRank = - 1 \<or> newRank = - 1 then False else newRank \<ge> oldRank)"

definition intRank :: "string list" where
  "intRank = [''tinyint'', ''smallint'', ''mediumint'', ''int'', ''bigint'']"

definition blobRank :: "string list" where
  "blobRank = [''tinyblob'', ''blob'', ''mediumblob'', ''longblob'']"

definition textRank :: "string list" where
  "textRank = [''tinytext'', ''text'', ''mediumtext'', ''longtext'']"

text \<open>
  The part of \<open>Unsafe\<close> after the test for equal type strings, as a function of the two
  lowered type strings. The rules are tried in the order of the source. In the rule for
  enum and set the source slices \<open>oldType[0:len(oldType)-1]\<close>, which is \<open>butlast\<close>; the
  slice cannot fail there, since a string with the prefix \<open>enum\<close> or \<open>set\<close> is not empty.
  The error results of \<open>Atoi\<close> are dropped, as in the source.
\<close>

definition unsafeTypeChange :: "string \<Rightarrow> string \<Rightarrow> bool" where
  "unsafeTypeChange oldType newType =
     (if (Contains oldType ''unsigned'' \<and> \<not> Contains newType ''unsigned'')
          \<or> (\<not> Contains oldType ''unsigned'' \<and> Contains newType ''unsigned'') then True
      else if bothSamePrefix oldType newType [''enum'', ''set''] then
        \<not> HasPrefix newType (butlast oldType)
      else if bothSamePrefix oldType newType [''decimal''] then
        (case (reDecimal oldType, reDecimal newType) of
           (Some oldMatches, Some newMatches) \<Rightarrow>
             (let oldPrecision = fst (Atoi (oldMatches ! 1));
                  oldScale = fst (Atoi (oldMatches ! 2));
                  newPrecision = fst (Atoi (newMatches ! 1));
                  newScale = fst (Atoi (newMatches ! 2))
              in newPrecision < oldPrecision \<or> newScale < oldScale)
         | _ \<Rightarrow> True)
      else if bothSamePrefix oldType newType [''varchar'', ''varbinary''] then
        (case (reVar oldType, reVar newType) of
           (Some oldMatches, Some newMatches) \<Rightarrow>
             (let oldSize = fst (Atoi (oldMatches ! 1));
                  newSize = fst (Atoi (newMatches ! 1))
              in newSize < oldSize)
         | _ \<Rightarrow> True)
      else if bothSamePrefix oldType newType [''time'', ''timestamp'', ''datetime''] then
        (if \<not> ContainsRune oldType CHR ''('' then False
         else if \<not> ContainsRune newType CHR ''('' then True
         else (case (reFsp oldType, reFsp newType) of
                 (Some oldMatches, Some newMatches) \<Rightarrow>
                   (let oldSize = fst (Atoi (oldMatches ! 1));
                        newSize = fst (Atoi (newMatches ! 1))
                    in newSize < oldSize)
               | _ \<Rightarrow> True))
      else if bothSamePrefix oldType newType [''float'', ''double'']
              \<or> (HasPrefix oldType ''float'' \<and> HasPrefix newType ''double'') then
        (if \<not> ContainsRune newType CHR ''('' then False
         else if \<not> ContainsRune oldType CHR ''('' then True
         else (case (reFloat oldType, reFloat newType) of
                 (Some oldMatches, Some newMatches) \<Rightarrow>
                   (let oldPrecision = fst (Atoi (oldMatches ! 1));
                        oldScale = fst (Atoi (oldMatches ! 2));
                        newPrecision = fst (Atoi (newMatches ! 1));
                        newScale = fst (Atoi (newMatches ! 2))
                    in newPrecision < oldPrecision \<or> newScale < oldScale)
               | _ \<Rightarrow> True))
      else if isSafeSizeChange oldType newType intRank
              \<or> isSafeSizeChange oldType newType blobRank
              \<or> isSafeSizeChange oldType newType textRank then False
      else True)"

text \<open>\<open>ModifyColumn.Unsafe\<close>.\<close>

definition Unsafe :: "'tbl ModifyColumn \<Rightarrow> bool" where
  "Unsafe mc =
     (if CharSet (OldColumn mc) \<noteq> CharSet (NewColumn mc) then True
      else let oldType = ToLower (TypeInDB (OldColumn mc));
               newType = ToLower (TypeInDB (NewColumn mc))
           in if oldType = newType then False else unsafeTypeChange oldType newType)"

text \<open>The two lowered type strings that \<open>Unsafe\<close> compares.\<close>

definition oldTypeOf :: "'tbl ModifyColumn \<Rightarrow> string" where
  "oldTypeOf mc = ToLower (TypeInDB (OldColumn mc))"

definition newTypeOf :: "'tbl ModifyColumn \<Rightarrow> string" where
  "newTypeOf mc = ToLower (TypeInDB (NewColumn mc))"

text \<open>Whether the qualifier \<open>unsigned\<close> occurs in a lowered type string.\<close>

definition isUnsigned :: "string \<Rightarrow> bool" where
  "isUnsigned t = Contains t ''unsigned''"




text \<open>A column change with nothing but the two type strings and one character set.\<close>

definition typeChange :: "string \<Rightarrow> string \<Rightarrow> unit ModifyColumn" where
  "typeChange oldT newT =
     \<lparr> Table = (),
       OldColumn = \<lparr> Name = ''c'', TypeInDB = oldT, CharSet = ''utf8'' \<rparr>,
       NewColumn = \<lparr> Name = ''c'', TypeInDB = newT, CharSet = ''utf8'' \<rparr>,
       PositionFirst = False, PositionAfter = None \<rparr>"

section \<open>Rendering configuration\<close>

text \<open>
  Modelled from the spec: the type \<open>NextAutoIncMode\<close> and its constants are declared in
  another file of the package. The spec lists the policies Ignore, OnlyIfIncreased,
  OnlyIfAlreadySet and the default, which always propagates; the first three carry the
  names alterclause.go uses for them.
\<close>

datatype NextAutoIncMode =
  NextAutoIncIgnore | NextAutoIncIfIncreased | NextAutoIncIfAlready | NextAutoIncAlways

text \<open>
  Modelled from the spec: the struct \<open>StatementModifiers\<close> is declared in another file of
  the package. The record has the three options alterclause.go reads.
\<close>

record StatementModifiers =
  StrictIndexOrder :: bool
  StrictForeignKeyNaming :: bool
  NextAutoInc :: NextAutoIncMode

section \<open>ChangeAutoIncrement\<close>

record ChangeAutoIncrement =
  OldNextAutoIncrement :: "64 word"
  NewNextAutoIncrement :: "64 word"

text \<open>The verb \<open>%d\<close> of \<open>fmt.Sprintf\<close> on a number that is not negative.\<close>

function formatDecimal :: "int \<Rightarrow> string" where
  "formatDecimal n =
     (if n < 10 then [char_of (48 + n)]
      else formatDecimal (n div 10) @ [char_of (48 + n mod 10)])"
  by pat_completeness auto
termination
  by (relation "measure nat") auto

declare formatDecimal.simps [simp del]

text \<open>\<open>ChangeAutoIncrement.Clause\<close>. The comparisons are those of unsigned 64-bit numbers.\<close>

definition ChangeAutoIncrement_Clause :: "ChangeAutoIncrement \<Rightarrow> StatementModifiers \<Rightarrow> string" where
  "ChangeAutoIncrement_Clause cai mods =
     (if NextAutoInc mods = NextAutoIncIgnore then ''''
      else if NextAutoInc mods = NextAutoIncIfIncreased
              \<and> OldNextAutoIncrement cai \<ge> NewNextAutoIncrement cai then ''''
      else if NextAutoInc mods = NextAutoIncIfAlready \<and> OldNextAutoIncrement cai \<le> 1 then ''''
      else ''AUTO_INCREMENT = '' @ formatDecimal (uint (NewNextAutoIncrement cai)))"

section \<open>Index and foreign key clauses\<close>

text \<open>
  Modelled from the spec: the structs \<open>Index\<close> and \<open>ForeignKey\<close> are declared in another
  file of the package. The records have the fields alterclause.go reads. Their method
  \<open>Definition\<close> and the function \<open>EscapeIdentifier\<close> are defined elsewhere as well; the
  clauses below take them as the arguments \<open>indexDefinition\<close>,
  \<open>foreignKeyDefinition\<close> and \<open>escapeIdentifier\<close>.
\<close>

record Index =
  Name :: string
  PrimaryKey :: bool

record ForeignKey =
  Name :: string

record AddIndex =
  Index :: Index
  reorderOnly :: bool

record DropIndex =
  Index :: Index
  reorderOnly :: bool

record AddForeignKey =
  ForeignKey :: ForeignKey
  renameOnly :: bool

record DropForeignKey =
  ForeignKey :: ForeignKey
  renameOnly :: bool

definition AddIndex_Clause ::
  "(Index \<Rightarrow> string) \<Rightarrow> AddIndex \<Rightarrow> StatementModifiers \<Rightarrow> string" where
  "AddIndex_Clause indexDefinition ai mods =
     (if \<not> StrictIndexOrder mods \<and> AddIndex.reorderOnly ai then ''''
      else ''ADD '' @ indexDefinition (AddIndex.Index ai))"

definition DropIndex_Clause ::
  "(string \<Rightarrow> string) \<Rightarrow> DropIndex \<Rightarrow> StatementModifiers \<Rightarrow> string" where
  "DropIndex_Clause escapeIdentifier di mods =
     (if \<not> StrictIndexOrder mods \<and> DropIndex.reorderOnly di then ''''
      else if PrimaryKey (DropIndex.Index di) then ''DROP PRIMARY KEY''
      else ''DROP KEY '' @ escapeIdentifier (Index.Name (DropIndex.Index di)))"

definition AddForeignKey_Clause ::
  "(ForeignKey \<Rightarrow> string) \<Rightarrow> AddForeignKey \<Rightarrow> StatementModifiers \<Rightarrow> string" where
  "AddForeignKey_Clause foreignKeyDefinition afk mods =
     (if \<not> StrictForeignKeyNaming mods \<and> AddForeignKey.renameOnly afk then ''''
      else ''ADD '' @ foreignKeyDefinition (AddForeignKey.ForeignKey afk))"

definition DropForeignKey_Clause ::
  "(string \<Rightarrow> string) \<Rightarrow> DropForeignKey \<Rightarrow> StatementModifiers \<Rightarrow> string" where
  "DropForeignKey_Clause escapeIdentifier dfk mods =
     (if \<not> StrictForeignKeyNaming mods \<and> DropForeignKey.renameOnly dfk then ''''
      else ''DROP FOREIGN KEY ''
             @ escapeIdentifier (ForeignKey.Name (DropForeignKey.ForeignKey dfk)))"

section \<open>ChangeCreateOptions\<close>









section \<open>Facts about the library functions\<close>











section \<open>Which rule of Unsafe decides\<close>

lemma Unsafe_distinct_types:
  assumes "CharSet (OldColumn mc) = CharSet (NewColumn mc)"
    and "oldTypeOf mc \<noteq> newTypeOf mc"
  shows "Unsafe mc = unsafeTypeChange (oldTypeOf mc) (newTypeOf mc)"
  using assms by (simp add: Unsafe_def Let_def oldTypeOf_def newTypeOf_def)


lemma signedness_rule:
  assumes "Contains oldType ''unsigned'' \<noteq> Contains newType ''unsigned''"
  shows "unsafeTypeChange oldType newType"
proof -
  from assms have "(Contains oldType ''unsigned'' \<and> \<not> Contains newType ''unsigned'')
          \<or> (\<not> Contains oldType ''unsigned'' \<and> Contains newType ''unsigned'')"
    by blast
  then show ?thesis
    by (simp only: unsafeTypeChange_def if_True)
qed







section \<open>Properties of ModifyColumn.Unsafe\<close>

text \<open>
  C2. For every column C, the destructiveness check of a ModifyColumn whose old and new
  column are both C returns false: the character sets are equal and so are the lowered
  type strings.
\<close>

theorem Unsafe_same_column:
  "Unsafe \<lparr> Table = t, OldColumn = c, NewColumn = c, PositionFirst = pf, PositionAfter = pa \<rparr>
     = False"
  by (simp add: Unsafe_def)

theorem Unsafe_same_column_witness:
  "Unsafe (typeChange ''varchar(191)'' ''varchar(191)'') = False"
  unfolding typeChange_def
  by (rule Unsafe_same_column)

text \<open>
  C6. When the qualifier \<open>unsigned\<close> occurs in exactly one of the two lowered type strings,
  Unsafe returns true, whatever the character sets and whatever else the two type strings
  say; the type strings are then distinct of themselves. Widening \<open>int unsigned\<close> to
  \<open>bigint\<close> is an instance.
\<close>

theorem Unsafe_signedness_flip:
  assumes "isUnsigned (oldTypeOf mc) \<noteq> isUnsigned (newTypeOf mc)"
  shows "Unsafe mc"
proof (cases "CharSet (OldColumn mc) = CharSet (NewColumn mc)")
  case False
  then show ?thesis by (simp add: Unsafe_def)
next
  case True
  from assms have ne: "oldTypeOf mc \<noteq> newTypeOf mc" by auto
  from assms have "unsafeTypeChange (oldTypeOf mc) (newTypeOf mc)"
    unfolding isUnsigned_def by (rule signedness_rule)
  with True ne show ?thesis by (simp add: Unsafe_distinct_types)
qed

theorem Unsafe_signedness_flip_witness:
  "isUnsigned (oldTypeOf (typeChange ''int unsigned'' ''bigint''))
     \<noteq> isUnsigned (newTypeOf (typeChange ''int unsigned'' ''bigint''))
   \<and> Unsafe (typeChange ''int unsigned'' ''bigint'')"
proof -
  have h: "isUnsigned (oldTypeOf (typeChange ''int unsigned'' ''bigint''))
     \<noteq> isUnsigned (newTypeOf (typeChange ''int unsigned'' ''bigint''))"
    by code_simp
  from h Unsafe_signedness_flip [OF h] show ?thesis by (rule conjI)
qed


















section \<open>Properties of the rendered clauses\<close>

text \<open>
  C8. ChangeAutoIncrement.Clause returns the empty string under the policy Ignore; under
  OnlyIfIncreased it returns the empty string exactly when the new next value is not
  greater than the old one; under OnlyIfAlreadySet exactly when the old next value is at
  most 1; and in every case it returns either the empty string or
  \<open>AUTO_INCREMENT = \<close> followed by the new next value in decimal, the latter always
  under the remaining policy.
\<close>

theorem ChangeAutoIncrement_Clause_policy:
  "(NextAutoInc mods = NextAutoIncIgnore \<longrightarrow> ChangeAutoIncrement_Clause cai mods = '''')
   \<and> (NextAutoInc mods = NextAutoIncIfIncreased \<longrightarrow>
        (ChangeAutoIncrement_Clause cai mods = '''')
          = (\<not> NewNextAutoIncrement cai > OldNextAutoIncrement cai))
   \<and> (NextAutoInc mods = NextAutoIncIfAlready \<longrightarrow>
        (ChangeAutoIncrement_Clause cai mods = '''') = (OldNextAutoIncrement cai \<le> 1))
   \<and> (NextAutoInc mods = NextAutoIncAlways \<longrightarrow>
        ChangeAutoIncrement_Clause cai mods
          = ''AUTO_INCREMENT = '' @ formatDecimal (uint (NewNextAutoIncrement cai)))
   \<and> (ChangeAutoIncrement_Clause cai mods = ''''
        \<or> ChangeAutoIncrement_Clause cai mods
            = ''AUTO_INCREMENT = '' @ formatDecimal (uint (NewNextAutoIncrement cai)))"
  by (cases "NextAutoInc mods") (auto simp: ChangeAutoIncrement_Clause_def not_less)

theorem ChangeAutoIncrement_Clause_policy_witness:
  "ChangeAutoIncrement_Clause \<lparr> OldNextAutoIncrement = 5, NewNextAutoIncrement = 12 \<rparr>
      \<lparr> StrictIndexOrder = False, StrictForeignKeyNaming = False,
        NextAutoInc = NextAutoIncIgnore \<rparr> = ''''
   \<and> ChangeAutoIncrement_Clause \<lparr> OldNextAutoIncrement = 12, NewNextAutoIncrement = 12 \<rparr>
      \<lparr> StrictIndexOrder = False, StrictForeignKeyNaming = False,
        NextAutoInc = NextAutoIncIfIncreased \<rparr> = ''''
   \<and> ChangeAutoIncrement_Clause \<lparr> OldNextAutoIncrement = 1, NewNextAutoIncrement = 12 \<rparr>
      \<lparr> StrictIndexOrder = False, StrictForeignKeyNaming = False,
        NextAutoInc = NextAutoIncIfAlready \<rparr> = ''''
   \<and> ChangeAutoIncrement_Clause \<lparr> OldNextAutoIncrement = 5, NewNextAutoIncrement = 12 \<rparr>
      \<lparr> StrictIndexOrder = False, StrictForeignKeyNaming = False,
        NextAutoInc = NextAutoIncAlways \<rparr> = ''AUTO_INCREMENT = 12''
   \<and> ChangeAutoIncrement_Clause \<lparr> OldNextAutoIncrement = 5, NewNextAutoIncrement = 12 \<rparr>
      \<lparr> StrictIndexOrder = False, StrictForeignKeyNaming = False,
        NextAutoInc = NextAutoIncIfIncreased \<rparr> = ''AUTO_INCREMENT = 12''"
proof -
  have f: "formatDecimal (uint (12 :: 64 word)) = ''12''"
    by code_simp
  have a: "ChangeAutoIncrement_Clause \<lparr> OldNextAutoIncrement = 5, NewNextAutoIncrement = 12 \<rparr>
      \<lparr> StrictIndexOrder = False, StrictForeignKeyNaming = False,
        NextAutoInc = NextAutoIncIgnore \<rparr> = ''''"
    using ChangeAutoIncrement_Clause_policy
      [of "\<lparr> StrictIndexOrder = False, StrictForeignKeyNaming = False,
             NextAutoInc = NextAutoIncIgnore \<rparr>"
          "\<lparr> OldNextAutoIncrement = 5, NewNextAutoIncrement = 12 \<rparr>"]
    by simp
  have b: "ChangeAutoIncrement_Clause \<lparr> OldNextAutoIncrement = 12, NewNextAutoIncrement = 12 \<rparr>
      \<lparr> StrictIndexOrder = False, StrictForeignKeyNaming = False,
        NextAutoInc = NextAutoIncIfIncreased \<rparr> = ''''"
    using ChangeAutoIncrement_Clause_policy
      [of "\<lparr> StrictIndexOrder = False, StrictForeignKeyNaming = False,
             NextAutoInc = NextAutoIncIfIncreased \<rparr>"
          "\<lparr> OldNextAutoIncrement = 12, NewNextAutoIncrement = 12 \<rparr>"]
    by simp
  have c: "ChangeAutoIncrement_Clause \<lparr> OldNextAutoIncrement = 1, NewNextAutoIncrement = 12 \<rparr>
      \<lparr> StrictIndexOrder = False, StrictForeignKeyNaming = False,
        NextAutoInc = NextAutoIncIfAlready \<rparr> = ''''"
    using ChangeAutoIncrement_Clause_policy
      [of "\<lparr> StrictIndexOrder = False, StrictForeignKeyNaming = False,
             NextAutoInc = NextAutoIncIfAlready \<rparr>"
          "\<lparr> OldNextAutoIncrement = 1, NewNextAutoIncrement = 12 \<rparr>"]
    by simp
  have d: "ChangeAutoIncrement_Clause \<lparr> OldNextAutoIncrement = 5, NewNextAutoIncrement = 12 \<rparr>
      \<lparr> StrictIndexOrder = False, StrictForeignKeyNaming = False,
        NextAutoInc = NextAutoIncAlways \<rparr> = ''AUTO_INCREMENT = 12''"
    using f ChangeAutoIncrement_Clause_policy
      [of "\<lparr> StrictIndexOrder = False, StrictForeignKeyNaming = False,
             NextAutoInc = NextAutoIncAlways \<rparr>"
          "\<lparr> OldNextAutoIncrement = 5, NewNextAutoIncrement = 12 \<rparr>"]
    by simp
  have e: "ChangeAutoIncrement_Clause \<lparr> OldNextAutoIncrement = 5, NewNextAutoIncrement = 12 \<rparr>
      \<lparr> StrictIndexOrder = False, StrictForeignKeyNaming = False,
        NextAutoInc = NextAutoIncIfIncreased \<rparr> = ''AUTO_INCREMENT = 12''"
    using f ChangeAutoIncrement_Clause_policy
      [of "\<lparr> StrictIndexOrder = False, StrictForeignKeyNaming = False,
             NextAutoInc = NextAutoIncIfIncreased \<rparr>"
          "\<lparr> OldNextAutoIncrement = 5, NewNextAutoIncrement = 12 \<rparr>"]
    by auto
  from a b c d e show ?thesis by simp
qed

text \<open>
  C9. For an AddIndex and a DropIndex marked reorder-only and an AddForeignKey and a
  DropForeignKey marked rename-only: without the strict flag of the configuration
  (StrictIndexOrder for the index clauses, StrictForeignKeyNaming for the foreign key
  clauses) the clause is the empty string; with the flag it is the text of the clause,
  which is not empty, whatever the rendering of a definition and the escaping of an
  identifier return.
\<close>

theorem reorder_rename_only_Clause:
  assumes "AddIndex.reorderOnly ai" and "DropIndex.reorderOnly di"
    and "AddForeignKey.renameOnly afk" and "DropForeignKey.renameOnly dfk"
  shows "(\<not> StrictIndexOrder mods \<longrightarrow>
            AddIndex_Clause indexDefinition ai mods = ''''
          \<and> DropIndex_Clause escapeIdentifier di mods = '''')
       \<and> (StrictIndexOrder mods \<longrightarrow>
            AddIndex_Clause indexDefinition ai mods
              = ''ADD '' @ indexDefinition (AddIndex.Index ai)
          \<and> DropIndex_Clause escapeIdentifier di mods
              = (if PrimaryKey (DropIndex.Index di) then ''DROP PRIMARY KEY''
                 else ''DROP KEY '' @ escapeIdentifier (Index.Name (DropIndex.Index di)))
          \<and> AddIndex_Clause indexDefinition ai mods \<noteq> ''''
          \<and> DropIndex_Clause escapeIdentifier di mods \<noteq> '''')
       \<and> (\<not> StrictForeignKeyNaming mods \<longrightarrow>
            AddForeignKey_Clause foreignKeyDefinition afk mods = ''''
          \<and> DropForeignKey_Clause escapeIdentifier dfk mods = '''')
       \<and> (StrictForeignKeyNaming mods \<longrightarrow>
            AddForeignKey_Clause foreignKeyDefinition afk mods
              = ''ADD '' @ foreignKeyDefinition (AddForeignKey.ForeignKey afk)
          \<and> DropForeignKey_Clause escapeIdentifier dfk mods
              = ''DROP FOREIGN KEY ''
                  @ escapeIdentifier (ForeignKey.Name (DropForeignKey.ForeignKey dfk))
          \<and> AddForeignKey_Clause foreignKeyDefinition afk mods \<noteq> ''''
          \<and> DropForeignKey_Clause escapeIdentifier dfk mods \<noteq> '''')"
  using assms
  by (simp add: AddIndex_Clause_def DropIndex_Clause_def AddForeignKey_Clause_def
        DropForeignKey_Clause_def)

theorem reorder_rename_only_Clause_witness:
  "AddIndex_Clause (\<lambda>i. ''KEY '' @ Index.Name i)
      \<lparr> AddIndex.Index = \<lparr> Index.Name = ''idx'', PrimaryKey = False \<rparr>,
        AddIndex.reorderOnly = True \<rparr>
      \<lparr> StrictIndexOrder = False, StrictForeignKeyNaming = False,
        NextAutoInc = NextAutoIncAlways \<rparr> = ''''
   \<and> DropIndex_Clause (\<lambda>s. s)
      \<lparr> DropIndex.Index = \<lparr> Index.Name = ''idx'', PrimaryKey = False \<rparr>,
        DropIndex.reorderOnly = True \<rparr>
      \<lparr> StrictIndexOrder = False, StrictForeignKeyNaming = False,
        NextAutoInc = NextAutoIncAlways \<rparr> = ''''
   \<and> AddForeignKey_Clause (\<lambda>f. ''CONSTRAINT '' @ ForeignKey.Name f)
      \<lparr> AddForeignKey.ForeignKey = \<lparr> ForeignKey.Name = ''fk'' \<rparr>,
        AddForeignKey.renameOnly = True \<rparr>
      \<lparr> StrictIndexOrder = False, StrictForeignKeyNaming = False,
        NextAutoInc = NextAutoIncAlways \<rparr> = ''''
   \<and> DropForeignKey_Clause (\<lambda>s. s)
      \<lparr> DropForeignKey.ForeignKey = \<lparr> ForeignKey.Name = ''fk'' \<rparr>,
        DropForeignKey.renameOnly = True \<rparr>
      \<lparr> StrictIndexOrder = False, StrictForeignKeyNaming = False,
        NextAutoInc = NextAutoIncAlways \<rparr> = ''''
   \<and> AddIndex_Clause (\<lambda>i. ''KEY '' @ Index.Name i)
      \<lparr> AddIndex.Index = \<lparr> Index.Name = ''idx'', PrimaryKey = False \<rparr>,
        AddIndex.reorderOnly = True \<rparr>
      \<lparr> StrictIndexOrder = True, StrictForeignKeyNaming = True,
        NextAutoInc = NextAutoIncAlways \<rparr> = ''ADD KEY idx''
   \<and> DropIndex_Clause (\<lambda>s. s)
      \<lparr> DropIndex.Index = \<lparr> Index.Name = ''idx'', PrimaryKey = False \<rparr>,
        DropIndex.reorderOnly = True \<rparr>
      \<lparr> StrictIndexOrder = True, StrictForeignKeyNaming = True,
        NextAutoInc = NextAutoIncAlways \<rparr> = ''DROP KEY idx''
   \<and> AddForeignKey_Clause (\<lambda>f. ''CONSTRAINT '' @ ForeignKey.Name f)
      \<lparr> AddForeignKey.ForeignKey = \<lparr> ForeignKey.Name = ''fk'' \<rparr>,
        AddForeignKey.renameOnly = True \<rparr>
      \<lparr> StrictIndexOrder = True, StrictForeignKeyNaming = True,
        NextAutoInc = NextAutoIncAlways \<rparr> = ''ADD CONSTRAINT fk''
   \<and> DropForeignKey_Clause (\<lambda>s. s)
      \<lparr> DropForeignKey.ForeignKey = \<lparr> ForeignKey.Name = ''fk'' \<rparr>,
        DropForeignKey.renameOnly = True \<rparr>
      \<lparr> StrictIndexOrder = True, StrictForeignKeyNaming = True,
        NextAutoInc = NextAutoIncAlways \<rparr> = ''DROP FOREIGN KEY fk''"
proof -
  have h1: "AddIndex.reorderOnly
      \<lparr> AddIndex.Index = \<lparr> Index.Name = ''idx'', PrimaryKey = False \<rparr>,
        AddIndex.reorderOnly = True \<rparr>"
    by simp
  have h2: "DropIndex.reorderOnly
      \<lparr> DropIndex.Index = \<lparr> Index.Name = ''idx'', PrimaryKey = False \<rparr>,
        DropIndex.reorderOnly = True \<rparr>"
    by simp
  have h3: "AddForeignKey.renameOnly
      \<lparr> AddForeignKey.ForeignKey = \<lparr> ForeignKey.Name = ''fk'' \<rparr>,
        AddForeignKey.renameOnly = True \<rparr>"
    by simp
  have h4: "DropForeignKey.renameOnly
      \<lparr> DropForeignKey.ForeignKey = \<lparr> ForeignKey.Name = ''fk'' \<rparr>,
        DropForeignKey.renameOnly = True \<rparr>"
    by simp
  note relaxed = reorder_rename_only_Clause [OF h1 h2 h3 h4,
      where mods = "\<lparr> StrictIndexOrder = False, StrictForeignKeyNaming = False,
                      NextAutoInc = NextAutoIncAlways \<rparr>"
        and indexDefinition = "\<lambda>i. ''KEY '' @ Index.Name i"
        and escapeIdentifier = "\<lambda>s. s"
        and foreignKeyDefinition = "\<lambda>f. ''CONSTRAINT '' @ ForeignKey.Name f"]
  note strict = reorder_rename_only_Clause [OF h1 h2 h3 h4,
      where mods = "\<lparr> StrictIndexOrder = True, StrictForeignKeyNaming = True,
                      NextAutoInc = NextAutoIncAlways \<rparr>"
        and indexDefinition = "\<lambda>i. ''KEY '' @ Index.Name i"
        and escapeIdentifier = "\<lambda>s. s"
        and foreignKeyDefinition = "\<lambda>f. ''CONSTRAINT '' @ ForeignKey.Name f"]
  from relaxed strict show ?thesis by simp
qed

section \<open>Properties of ChangeCreateOptions.Clause\<close>










end
